theory Spec2Isabelle
  imports Main "HOL-Library.Word" "HOL-Library.AList"
begin

section \<open>The deployment controller: data model\<close>

text \<open>
  A shallow embedding of \<^verbatim>\<open>pkg/controller/deployment/deployment_controller.go\<close>.
  API objects are records, Go pointers and nil-able maps and slices are options, Go
  errors are values of the datatype \<open>error\<close>, and every function that talks to a
  collaborator (informer caches, API client, event recorder, process-wide error
  handler, work queue) threads a \<open>State\<close> through: the work queue and the trace of
  the calls made so far. Leveled logging (klog) and the diagnostic prints have no
  effect on any collaborator and are left out.
\<close>

subsection \<open>Errors\<close>

text \<open>
  Modelled from the spec: the error taxonomy of the apimachinery \<^verbatim>\<open>errors\<close> package,
  which is not part of the source file. An API status error carries a reason (such as
  \<^verbatim>\<open>NotFound\<close>) and the types of its causes (such as \<^verbatim>\<open>NamespaceTerminating\<close>);
  \<open>Errorf\<close> is the value of \<^verbatim>\<open>fmt.Errorf\<close>: the format string, its string arguments
  and the error it embeds, if any.
\<close>

datatype error =
    StatusError string "string list" string
  | Errorf string "string list" "error option"

fun IsNotFound :: "error \<Rightarrow> bool" where
  "IsNotFound (StatusError reason causes message) = (reason = ''NotFound'')"
| "IsNotFound (Errorf f args e) = False"

fun HasStatusCause :: "error \<Rightarrow> string \<Rightarrow> bool" where
  "HasStatusCause (StatusError reason causes message) name = (name \<in> set causes)"
| "HasStatusCause (Errorf f args e) name = False"

definition NamespaceTerminatingCause :: string where
  "NamespaceTerminatingCause = ''NamespaceTerminating''"

subsection \<open>API objects\<close>

record OwnerReference =
  APIVersion :: string
  Kind :: string
  RefName :: string
  RefUID :: string
  Controller :: "bool option"
  BlockOwnerDeletion :: "bool option"

text \<open>A Go map is an association list with distinct keys; \<open>None\<close> is the nil map.\<close>

type_synonym Labels = "(string \<times> string) list option"

record ObjectMeta =
  Namespace :: string
  Name :: string
  UID :: string
  ResourceVersion :: string
  Generation :: "64 word"
  DeletionTimestamp :: "nat option"
  Labels :: Labels
  OwnerReferences :: "OwnerReference list"

record LabelSelectorRequirement =
  Key :: string
  Operator :: string
  Values :: "string list option"

record LabelSelector =
  MatchLabels :: Labels
  MatchExpressions :: "LabelSelectorRequirement list option"

record DeploymentStrategy =
  Type :: string

record DeploymentSpec =
  Selector :: "LabelSelector option"
  Strategy :: DeploymentStrategy
  Paused :: bool

record DeploymentStatus =
  ObservedGeneration :: "64 word"

record Deployment = ObjectMeta +
  Spec :: DeploymentSpec
  Status :: DeploymentStatus

record ReplicaSet = ObjectMeta +
  Replicas :: "32 word option"

record Pod = ObjectMeta +
  Phase :: string

text \<open>
  What an informer hands to a delete handler: an object, or a tombstone
  (\<^verbatim>\<open>cache.DeletedFinalStateUnknown\<close>) wrapping the last known object.
\<close>

datatype Obj =
    DeploymentObj Deployment
  | ReplicaSetObj ReplicaSet
  | PodObj Pod
  | Tombstone Obj

definition RecreateDeploymentStrategyType :: string where
  "RecreateDeploymentStrategyType = ''Recreate''"

definition RollingUpdateDeploymentStrategyType :: string where
  "RollingUpdateDeploymentStrategyType = ''RollingUpdate''"

definition controllerKind_Kind :: string where
  "controllerKind_Kind = ''Deployment''"

definition ReplicaSet_Kind :: string where
  "ReplicaSet_Kind = ''ReplicaSet''"

definition maxRetries :: nat where
  "maxRetries = 15"

text \<open>
  Modelled from the spec: \<^verbatim>\<open>metav1.GetControllerOf\<close> (apimachinery, not part of the
  source file) gives the controller owner-reference of an object, the owner-reference
  whose controller flag is set, or nil.
\<close>

definition GetControllerOf :: "'a ObjectMeta_scheme \<Rightarrow> OwnerReference option" where
  "GetControllerOf obj = find (\<lambda>r. Controller r = Some True) (OwnerReferences obj)"

text \<open>
  \<^verbatim>\<open>reflect.DeepEqual\<close> on two label maps: both nil, or both non-nil with the same
  entries.
\<close>

fun Labels_DeepEqual :: "Labels \<Rightarrow> Labels \<Rightarrow> bool" where
  "Labels_DeepEqual None None = True"
| "Labels_DeepEqual (Some a) (Some b) =
     list_all (\<lambda>k. map_of a k = map_of b k) (map fst a @ map fst b)"
| "Labels_DeepEqual a b = False"

text \<open>The value \<^verbatim>\<open>metav1.LabelSelector{}\<close>: both fields nil.\<close>

definition everything :: LabelSelector where
  "everything = \<lparr>MatchLabels = None, MatchExpressions = None\<rparr>"

subsection \<open>The work queue\<close>

text \<open>
  Modelled from the spec: the rate-limited work queue (client-go \<^verbatim>\<open>workqueue\<close>, not
  part of the source file), as far as the controller calls it. \<open>Add\<close> inserts an
  identifier unless it is already queued; \<open>AddRateLimited\<close> schedules it after a delay
  of 5ms doubled per earlier attempt and counts the attempt; \<open>NumRequeues\<close> is the
  attempt counter; \<open>Forget\<close> clears it. Delays are in milliseconds.
\<close>

record WorkQueue =
  queued :: "string list"
  delayed :: "(string \<times> nat) list"
  attempts :: "string \<rightharpoonup> nat"

definition NumRequeues :: "WorkQueue \<Rightarrow> string \<Rightarrow> nat" where
  "NumRequeues q key = (case attempts q key of None \<Rightarrow> 0 | Some n \<Rightarrow> n)"

definition Add :: "WorkQueue \<Rightarrow> string \<Rightarrow> WorkQueue" where
  "Add q key = (if key \<in> set (queued q) then q else q\<lparr>queued := queued q @ [key]\<rparr>)"

definition AddRateLimited :: "WorkQueue \<Rightarrow> string \<Rightarrow> WorkQueue" where
  "AddRateLimited q key =
     q\<lparr>delayed := delayed q @ [(key, 5 * 2 ^ NumRequeues q key)],
       attempts := (attempts q)(key \<mapsto> NumRequeues q key + 1)\<rparr>"

definition Forget :: "WorkQueue \<Rightarrow> string \<Rightarrow> WorkQueue" where
  "Forget q key = q\<lparr>attempts := (attempts q)(key := None)\<rparr>"

subsection \<open>State and collaborators\<close>

text \<open>
  The calls the controller makes to its collaborators, in order: reads of the
  informer caches, reads and writes through the API client, events, and errors given
  to the process-wide handler (\<^verbatim>\<open>utilruntime.HandleError\<close>).
\<close>

datatype Call =
    DeploymentsGet string string
  | ReplicaSetsGet string string
  | ReplicaSetsList string
  | PodsList string
  | GetDeploymentsForReplicaSetCall ReplicaSet
  | ListReplicaSetsCall Deployment
  | Eventf Deployment string string string
  | UpdateStatus Deployment
  | HandleError error

record State =
  queue :: WorkQueue
  calls :: "Call list"

type_synonym Selector = "Labels \<Rightarrow> bool"

type_synonym PodMap = "(string \<times> Pod list) list"

text \<open>
  The controller. Its listers and client are interfaces, given here by what each call
  returns. The functions of other packages and files that the source file calls are
  fields too: the library functions \<open>KeyFunc\<close>, \<open>SplitMetaNamespaceKey\<close> and
  \<open>LabelSelectorAsSelector\<close>, the helpers of package \<^verbatim>\<open>util\<close>, the claim of the
  controller-reference manager (with its adoption recheck), and the sync routines of
  the sibling files, which may change the state in any way.
\<close>

record DeploymentController =
  dLister_Get :: "string \<Rightarrow> string \<Rightarrow> error + Deployment"
  rsLister_Get :: "string \<Rightarrow> string \<Rightarrow> error + ReplicaSet"
  rsLister_List :: "string \<Rightarrow> error + ReplicaSet list"
  podLister_List :: "string \<Rightarrow> Selector \<Rightarrow> error + Pod list"
  client_UpdateStatus :: "Deployment \<Rightarrow> error + Deployment"
  KeyFunc :: "Deployment \<Rightarrow> error + string"
  SplitMetaNamespaceKey :: "string \<Rightarrow> error + (string \<times> string)"
  LabelSelectorAsSelector :: "LabelSelector option \<Rightarrow> error + Selector"
  util_GetDeploymentsForReplicaSet :: "ReplicaSet \<Rightarrow> error + Deployment list"
  util_ListReplicaSets :: "Deployment \<Rightarrow> error + ReplicaSet list"
  ClaimReplicaSets ::
    "Deployment \<Rightarrow> Selector \<Rightarrow> ReplicaSet list \<Rightarrow> State \<Rightarrow> (error + ReplicaSet list) \<times> State"
  syncStatusOnly :: "Deployment \<Rightarrow> ReplicaSet list \<Rightarrow> State \<Rightarrow> error option \<times> State"
  checkPausedConditions :: "Deployment \<Rightarrow> State \<Rightarrow> (error option \<times> Deployment) \<times> State"
  sync :: "Deployment \<Rightarrow> ReplicaSet list \<Rightarrow> State \<Rightarrow> error option \<times> State"
  getRollbackTo :: "Deployment \<Rightarrow> bool"
  rollback :: "Deployment \<Rightarrow> ReplicaSet list \<Rightarrow> State \<Rightarrow> error option \<times> State"
  isScalingEvent :: "Deployment \<Rightarrow> ReplicaSet list \<Rightarrow> State \<Rightarrow> (error + bool) \<times> State"
  rolloutRecreate ::
    "Deployment \<Rightarrow> ReplicaSet list \<Rightarrow> PodMap \<Rightarrow> State \<Rightarrow> error option \<times> State"
  rolloutRolling :: "Deployment \<Rightarrow> ReplicaSet list \<Rightarrow> State \<Rightarrow> error option \<times> State"

definition record_call :: "Call \<Rightarrow> State \<Rightarrow> State" where
  "record_call c st = st\<lparr>calls := calls st @ [c]\<rparr>"

definition Deployments_Get ::
  "DeploymentController \<Rightarrow> string \<Rightarrow> string \<Rightarrow> State \<Rightarrow> (error + Deployment) \<times> State" where
  "Deployments_Get dc namespace name st =
     (dLister_Get dc namespace name, record_call (DeploymentsGet namespace name) st)"

definition ReplicaSets_Get ::
  "DeploymentController \<Rightarrow> string \<Rightarrow> string \<Rightarrow> State \<Rightarrow> (error + ReplicaSet) \<times> State" where
  "ReplicaSets_Get dc namespace name st =
     (rsLister_Get dc namespace name, record_call (ReplicaSetsGet namespace name) st)"

definition ReplicaSets_List ::
  "DeploymentController \<Rightarrow> string \<Rightarrow> State \<Rightarrow> (error + ReplicaSet list) \<times> State" where
  "ReplicaSets_List dc namespace st =
     (rsLister_List dc namespace, record_call (ReplicaSetsList namespace) st)"

definition Pods_List ::
  "DeploymentController \<Rightarrow> string \<Rightarrow> Selector \<Rightarrow> State \<Rightarrow> (error + Pod list) \<times> State" where
  "Pods_List dc namespace selector st =
     (podLister_List dc namespace selector, record_call (PodsList namespace) st)"

definition Client_UpdateStatus ::
  "DeploymentController \<Rightarrow> Deployment \<Rightarrow> State \<Rightarrow> (error + Deployment) \<times> State" where
  "Client_UpdateStatus dc d st = (client_UpdateStatus dc d, record_call (UpdateStatus d) st)"

section \<open>The event handlers\<close>

definition enqueue :: "DeploymentController \<Rightarrow> Deployment \<Rightarrow> State \<Rightarrow> State" where
  "enqueue dc deployment st =
     (case KeyFunc dc deployment of
        Inl err \<Rightarrow>
          record_call (HandleError (Errorf ''couldn't get key for object %#v: %v'' [] (Some err))) st
      | Inr key \<Rightarrow> st\<lparr>queue := Add (queue st) key\<rparr>)"

text \<open>The loop \<^verbatim>\<open>for _, d := range ds { dc.enqueueDeployment(d) }\<close>.\<close>

fun enqueue_each :: "DeploymentController \<Rightarrow> Deployment list \<Rightarrow> State \<Rightarrow> State" where
  "enqueue_each dc [] st = st"
| "enqueue_each dc (d # ds) st = enqueue_each dc ds (enqueue dc d st)"

definition resolveControllerRef ::
  "DeploymentController \<Rightarrow> string \<Rightarrow> OwnerReference \<Rightarrow> State \<Rightarrow> Deployment option \<times> State" where
  "resolveControllerRef dc namespace controllerRef st =
     (if Kind controllerRef \<noteq> controllerKind_Kind then (None, st)
      else
        (case Deployments_Get dc namespace (RefName controllerRef) st of
           (Inl err, st1) \<Rightarrow> (None, st1)
         | (Inr d, st1) \<Rightarrow>
             if UID d \<noteq> RefUID controllerRef then (None, st1) else (Some d, st1)))"

definition getDeploymentsForReplicaSet ::
  "DeploymentController \<Rightarrow> ReplicaSet \<Rightarrow> State \<Rightarrow> Deployment list \<times> State" where
  "getDeploymentsForReplicaSet dc rs st =
     (let st1 = record_call (GetDeploymentsForReplicaSetCall rs) st in
      case util_GetDeploymentsForReplicaSet dc rs of
        Inl err \<Rightarrow> ([], st1)
      | Inr deployments \<Rightarrow> if length deployments = 0 then ([], st1) else (deployments, st1))"

text \<open>
  The two type assertions at the head of \<open>deleteReplicaSet\<close> and of \<open>deletePod\<close>: the
  object itself, or the object inside a tombstone; anything else is an error for the
  process-wide handler.
\<close>

fun asReplicaSet :: "Obj \<Rightarrow> error + ReplicaSet" where
  "asReplicaSet (ReplicaSetObj rs) = Inr rs"
| "asReplicaSet (Tombstone (ReplicaSetObj rs)) = Inr rs"
| "asReplicaSet (Tombstone obj) =
     Inl (Errorf ''tombstone contained object that is not a ReplicaSet %#v'' [] None)"
| "asReplicaSet obj = Inl (Errorf ''couldn't get object from tombstone %#v'' [] None)"

fun asPod :: "Obj \<Rightarrow> error + Pod" where
  "asPod (PodObj pod) = Inr pod"
| "asPod (Tombstone (PodObj pod)) = Inr pod"
| "asPod (Tombstone obj) =
     Inl (Errorf ''tombstone contained object that is not a pod %#v'' [] None)"
| "asPod obj = Inl (Errorf ''couldn't get object from tombstone %#v'' [] None)"

definition deleteReplicaSet :: "DeploymentController \<Rightarrow> Obj \<Rightarrow> State \<Rightarrow> State" where
  "deleteReplicaSet dc obj st =
     (case asReplicaSet obj of
        Inl err \<Rightarrow> record_call (HandleError err) st
      | Inr rs \<Rightarrow>
          (case GetControllerOf rs of
             None \<Rightarrow> st
           | Some controllerRef \<Rightarrow>
               (case resolveControllerRef dc (Namespace rs) controllerRef st of
                  (None, st1) \<Rightarrow> st1
                | (Some d, st1) \<Rightarrow> enqueue dc d st1)))"

definition addReplicaSet :: "DeploymentController \<Rightarrow> ReplicaSet \<Rightarrow> State \<Rightarrow> State" where
  "addReplicaSet dc rs st =
     (if DeletionTimestamp rs \<noteq> None then deleteReplicaSet dc (ReplicaSetObj rs) st
      else
        (case GetControllerOf rs of
           Some controllerRef \<Rightarrow>
             (case resolveControllerRef dc (Namespace rs) controllerRef st of
                (None, st1) \<Rightarrow> st1
              | (Some d, st1) \<Rightarrow> enqueue dc d st1)
         | None \<Rightarrow>
             (case getDeploymentsForReplicaSet dc rs st of
                (ds, st1) \<Rightarrow> if length ds = 0 then st1 else enqueue_each dc ds st1)))"

definition updateReplicaSet ::
  "DeploymentController \<Rightarrow> ReplicaSet \<Rightarrow> ReplicaSet \<Rightarrow> State \<Rightarrow> State" where
  "updateReplicaSet dc oldRS curRS st =
     (if ResourceVersion curRS = ResourceVersion oldRS then st
      else
        let curControllerRef = GetControllerOf curRS;
            oldControllerRef = GetControllerOf oldRS;
            controllerRefChanged = (curControllerRef \<noteq> oldControllerRef);
            st1 =
              (case oldControllerRef of
                 Some oldRef \<Rightarrow>
                   if controllerRefChanged then
                     (case resolveControllerRef dc (Namespace oldRS) oldRef st of
                        (Some d, st') \<Rightarrow> enqueue dc d st'
                      | (None, st') \<Rightarrow> st')
                   else st
               | None \<Rightarrow> st)
        in
          (case curControllerRef of
             Some curRef \<Rightarrow>
               (case resolveControllerRef dc (Namespace curRS) curRef st1 of
                  (None, st2) \<Rightarrow> st2
                | (Some d, st2) \<Rightarrow> enqueue dc d st2)
           | None \<Rightarrow>
               let labelChanged = \<not> Labels_DeepEqual (Labels curRS) (Labels oldRS) in
               if labelChanged \<or> controllerRefChanged then
                 (case getDeploymentsForReplicaSet dc curRS st1 of
                    (ds, st2) \<Rightarrow> if length ds = 0 then st2 else enqueue_each dc ds st2)
               else st1))"

definition getDeploymentForPod ::
  "DeploymentController \<Rightarrow> Pod \<Rightarrow> State \<Rightarrow> Deployment option \<times> State" where
  "getDeploymentForPod dc pod st =
     (case GetControllerOf pod of
        None \<Rightarrow> (None, st)
      | Some controllerRef \<Rightarrow>
          if Kind controllerRef \<noteq> ReplicaSet_Kind then (None, st)
          else
            (case ReplicaSets_Get dc (Namespace pod) (RefName controllerRef) st of
               (Inl err, st1) \<Rightarrow> (None, st1)
             | (Inr rs, st1) \<Rightarrow>
                 if UID rs \<noteq> RefUID controllerRef then (None, st1)
                 else
                   (case GetControllerOf rs of
                      None \<Rightarrow> (None, st1)
                    | Some rsRef \<Rightarrow> resolveControllerRef dc (Namespace rs) rsRef st1)))"

section \<open>Grouping pods by replica set\<close>

text \<open>The first loop of \<open>getPodMapForDeployment\<close>: an empty list for every replica set.\<close>

fun initPodMap :: "PodMap \<Rightarrow> ReplicaSet list \<Rightarrow> PodMap" where
  "initPodMap podMap [] = podMap"
| "initPodMap podMap (rs # rsList) = initPodMap (AList.update (UID rs) [] podMap) rsList"

text \<open>The second loop: a pod is appended under the unique-id of its controller reference.\<close>

fun groupPods :: "PodMap \<Rightarrow> Pod list \<Rightarrow> PodMap" where
  "groupPods podMap [] = podMap"
| "groupPods podMap (pod # pods) =
     (case GetControllerOf pod of
        None \<Rightarrow> groupPods podMap pods
      | Some controllerRef \<Rightarrow>
          (case map_of podMap (RefUID controllerRef) of
             None \<Rightarrow> groupPods podMap pods
           | Some podList \<Rightarrow>
               groupPods (AList.update (RefUID controllerRef) (podList @ [pod]) podMap) pods))"

definition getPodMapForDeployment ::
  "DeploymentController \<Rightarrow> Deployment \<Rightarrow> ReplicaSet list \<Rightarrow> State \<Rightarrow> (error + PodMap) \<times> State" where
  "getPodMapForDeployment dc d rsList st =
     (case LabelSelectorAsSelector dc (Selector (Spec d)) of
        Inl err \<Rightarrow> (Inl err, st)
      | Inr selector \<Rightarrow>
          (case Pods_List dc (Namespace d) selector st of
             (Inl err, st1) \<Rightarrow> (Inl err, st1)
           | (Inr pods, st1) \<Rightarrow> (Inr (groupPods (initPodMap [] rsList) pods), st1)))"

text \<open>The loop of \<open>deletePod\<close> that adds up the lengths of the lists of the map.\<close>

fun numPods :: "PodMap \<Rightarrow> nat" where
  "numPods [] = 0"
| "numPods ((uid, podList) # podMap) = length podList + numPods podMap"

definition deletePod :: "DeploymentController \<Rightarrow> Obj \<Rightarrow> State \<Rightarrow> State" where
  "deletePod dc obj st =
     (case asPod obj of
        Inl err \<Rightarrow> record_call (HandleError err) st
      | Inr pod \<Rightarrow>
          (case getDeploymentForPod dc pod st of
             (None, st1) \<Rightarrow> st1
           | (Some d, st1) \<Rightarrow>
               if Type (Strategy (Spec d)) \<noteq> RecreateDeploymentStrategyType then st1
               else
                 let st2 = record_call (ListReplicaSetsCall d) st1 in
                 (case util_ListReplicaSets dc d of
                    Inl err \<Rightarrow> st2
                  | Inr rsList \<Rightarrow>
                      (case getPodMapForDeployment dc d rsList st2 of
                         (Inl err, st3) \<Rightarrow> st3
                       | (Inr podMap, st3) \<Rightarrow>
                           if numPods podMap = 0 then enqueue dc d st3 else st3))))"

section \<open>The sync\<close>

definition getReplicaSetsForDeployment ::
  "DeploymentController \<Rightarrow> Deployment \<Rightarrow> State \<Rightarrow> (error + ReplicaSet list) \<times> State" where
  "getReplicaSetsForDeployment dc d st =
     (case ReplicaSets_List dc (Namespace d) st of
        (Inl err, st1) \<Rightarrow> (Inl err, st1)
      | (Inr rsList, st1) \<Rightarrow>
          (case LabelSelectorAsSelector dc (Selector (Spec d)) of
             Inl err \<Rightarrow>
               (Inl (Errorf ''deployment %s/%s has invalid label selector: %v''
                       [Namespace d, Name d] (Some err)), st1)
           | Inr deploymentSelector \<Rightarrow> ClaimReplicaSets dc d deploymentSelector rsList st1))"

text \<open>
  The part of \<open>syncDeployment\<close> after the replica sets are claimed and the pods
  grouped: deletion, pause, rollback, scaling, and the strategy switch.
\<close>

definition syncDeployment_dispatch ::
  "DeploymentController \<Rightarrow> Deployment \<Rightarrow> ReplicaSet list \<Rightarrow> PodMap \<Rightarrow> State
     \<Rightarrow> error option \<times> State" where
  "syncDeployment_dispatch dc d rsList podMap st =
     (if DeletionTimestamp d \<noteq> None then syncStatusOnly dc d rsList st
      else
        (case checkPausedConditions dc d st of
           ((Some err, d1), st1) \<Rightarrow> (Some err, st1)
         | ((None, d1), st1) \<Rightarrow>
             if Paused (Spec d1) then sync dc d1 rsList st1
             else if getRollbackTo dc d1 then rollback dc d1 rsList st1
             else
               (case isScalingEvent dc d1 rsList st1 of
                  (Inl err, st2) \<Rightarrow> (Some err, st2)
                | (Inr scalingEvent, st2) \<Rightarrow>
                    if scalingEvent then sync dc d1 rsList st2
                    else if Type (Strategy (Spec d1)) = RecreateDeploymentStrategyType
                      then rolloutRecreate dc d1 rsList podMap st2
                    else if Type (Strategy (Spec d1)) = RollingUpdateDeploymentStrategyType
                      then rolloutRolling dc d1 rsList st2
                    else
                      (Some (Errorf ''unexpected deployment strategy type: %s''
                               [Type (Strategy (Spec d1))] None), st2))))"

text \<open>
  The branch of \<open>syncDeployment\<close> for a selector that selects all pods. The value that
  \<^verbatim>\<open>UpdateStatus\<close> returns is not bound to anything in the source.
\<close>

definition syncDeployment_selectingAll ::
  "DeploymentController \<Rightarrow> Deployment \<Rightarrow> State \<Rightarrow> error option \<times> State" where
  "syncDeployment_selectingAll dc d st =
     (let st1 = record_call (Eventf d ''Warning'' ''SelectingAll''
                  ''This deployment is selecting all pods. A non-empty selector is required.'') st
      in
        if ObservedGeneration (Status d) <s Generation d then
          let d1 = d\<lparr>Status := (Status d)\<lparr>ObservedGeneration := Generation d\<rparr>\<rparr> in
          (case Client_UpdateStatus dc d1 st1 of (unused, st2) \<Rightarrow> (None, st2))
        else (None, st1))"

definition syncDeployment ::
  "DeploymentController \<Rightarrow> string \<Rightarrow> State \<Rightarrow> error option \<times> State" where
  "syncDeployment dc key st =
     (case SplitMetaNamespaceKey dc key of
        Inl err \<Rightarrow> (Some err, st)
      | Inr (namespace, name) \<Rightarrow>
          (case Deployments_Get dc namespace name st of
             (Inl err, st1) \<Rightarrow> if IsNotFound err then (None, st1) else (Some err, st1)
           | (Inr deployment, st1) \<Rightarrow>
               let d = deployment in
               if Selector (Spec d) = Some everything then syncDeployment_selectingAll dc d st1
               else
                 (case getReplicaSetsForDeployment dc d st1 of
                    (Inl err, st2) \<Rightarrow> (Some err, st2)
                  | (Inr rsList, st2) \<Rightarrow>
                      (case getPodMapForDeployment dc d rsList st2 of
                         (Inl err, st3) \<Rightarrow> (Some err, st3)
                       | (Inr podMap, st3) \<Rightarrow> syncDeployment_dispatch dc d rsList podMap st3))))"

section \<open>The retry policy\<close>

text \<open>
  \<open>handleErr\<close> also splits the key, for its log lines only; the policy does not depend
  on the outcome.
\<close>

definition handleErr :: "DeploymentController \<Rightarrow> error option \<Rightarrow> string \<Rightarrow> State \<Rightarrow> State" where
  "handleErr dc err key st =
     (case err of
        None \<Rightarrow> st\<lparr>queue := Forget (queue st) key\<rparr>
      | Some e \<Rightarrow>
          if HasStatusCause e NamespaceTerminatingCause then st\<lparr>queue := Forget (queue st) key\<rparr>
          else if NumRequeues (queue st) key < maxRetries
            then st\<lparr>queue := AddRateLimited (queue st) key\<rparr>
          else
            (let st1 = record_call (HandleError e) st in st1\<lparr>queue := Forget (queue st1) key\<rparr>))"

text \<open>
  One turn of a worker on a key it has taken from the queue: sync, then the retry
  policy.
\<close>

definition processKey :: "DeploymentController \<Rightarrow> string \<Rightarrow> State \<Rightarrow> State" where
  "processKey dc key st = (case syncDeployment dc key st of (err, st1) \<Rightarrow> handleErr dc err key st1)"

section \<open>Auxiliary notions and test fixtures\<close>

text \<open>A pod whose controller owner-reference carries the given unique-id.\<close>

definition controlledBy :: "string \<Rightarrow> Pod \<Rightarrow> bool" where
  "controlledBy uid pod = (map_option RefUID (GetControllerOf pod) = Some uid)"

text \<open>
  Concrete objects and a concrete controller over fixed caches, on which the
  theorems below are exercised. Everything lives in namespace \<^verbatim>\<open>default\<close>.
\<close>

definition fixture_ref :: "string \<Rightarrow> string \<Rightarrow> string \<Rightarrow> OwnerReference" where
  "fixture_ref kind name uid =
     \<lparr>APIVersion = ''apps/v1'', Kind = kind, RefName = name, RefUID = uid,
      Controller = Some True, BlockOwnerDeletion = Some True\<rparr>"

definition fixture_deployment ::
  "LabelSelector option \<Rightarrow> string \<Rightarrow> 64 word \<Rightarrow> 64 word \<Rightarrow> Deployment" where
  "fixture_deployment selector strategy generation observed =
     \<lparr>Namespace = ''default'', Name = ''web'', UID = ''uid-web'', ResourceVersion = ''7'',
      Generation = generation, DeletionTimestamp = None, Labels = None, OwnerReferences = [],
      Spec = \<lparr>Selector = selector, Strategy = \<lparr>Type = strategy\<rparr>, Paused = False\<rparr>,
      Status = \<lparr>ObservedGeneration = observed\<rparr>\<rparr>"

definition fixture_selector :: LabelSelector where
  "fixture_selector = \<lparr>MatchLabels = Some [(''app'', ''web'')], MatchExpressions = None\<rparr>"

definition fixture_replicaSet :: "string \<Rightarrow> OwnerReference list \<Rightarrow> ReplicaSet" where
  "fixture_replicaSet resourceVersion refs =
     \<lparr>Namespace = ''default'', Name = ''web-1'', UID = ''uid-rs'',
      ResourceVersion = resourceVersion, Generation = 1, DeletionTimestamp = None,
      Labels = Some [(''app'', ''web'')], OwnerReferences = refs, Replicas = Some 3\<rparr>"

definition fixture_pod :: "OwnerReference list \<Rightarrow> Pod" where
  "fixture_pod refs =
     \<lparr>Namespace = ''default'', Name = ''web-1-a'', UID = ''uid-pod'', ResourceVersion = ''9'',
      Generation = 0, DeletionTimestamp = None, Labels = Some [(''app'', ''web'')],
      OwnerReferences = refs, Phase = ''Running''\<rparr>"

definition fixture_notFound :: error where
  "fixture_notFound = StatusError ''NotFound'' [] ''not found''"

definition fixture_conflict :: error where
  "fixture_conflict = StatusError ''Conflict'' [] ''the object has been modified''"

definition fixture_terminating :: error where
  "fixture_terminating =
     StatusError ''Forbidden'' [''NamespaceTerminating''] ''namespace is being terminated''"

definition fixture_controller ::
  "Deployment list \<Rightarrow> ReplicaSet list \<Rightarrow> Pod list \<Rightarrow> (Deployment \<Rightarrow> error + Deployment)
     \<Rightarrow> DeploymentController" where
  "fixture_controller ds rss pods update =
     \<lparr>dLister_Get = (\<lambda>namespace name.
        case find (\<lambda>d. Namespace d = namespace \<and> Name d = name) ds of
          None \<Rightarrow> Inl fixture_notFound | Some d \<Rightarrow> Inr d),
      rsLister_Get = (\<lambda>namespace name.
        case find (\<lambda>rs. Namespace rs = namespace \<and> Name rs = name) rss of
          None \<Rightarrow> Inl fixture_notFound | Some rs \<Rightarrow> Inr rs),
      rsLister_List = (\<lambda>namespace. Inr (filter (\<lambda>rs. Namespace rs = namespace) rss)),
      podLister_List = (\<lambda>namespace selector.
        Inr (filter (\<lambda>pod. Namespace pod = namespace \<and> selector (Labels pod)) pods)),
      client_UpdateStatus = update,
      KeyFunc = (\<lambda>d. Inr (Namespace d @ ''/'' @ Name d)),
      SplitMetaNamespaceKey = (\<lambda>key.
        Inr (takeWhile (\<lambda>c. c \<noteq> CHR ''/'') key, drop 1 (dropWhile (\<lambda>c. c \<noteq> CHR ''/'') key))),
      LabelSelectorAsSelector = (\<lambda>selector. Inr (\<lambda>labels. True)),
      util_GetDeploymentsForReplicaSet = (\<lambda>rs. Inr []),
      util_ListReplicaSets = (\<lambda>d.
        Inr (filter (\<lambda>rs. map_option RefUID (GetControllerOf rs) = Some (UID d)) rss)),
      ClaimReplicaSets = (\<lambda>d selector rsList st.
        (Inr (filter (\<lambda>rs. map_option RefUID (GetControllerOf rs) = Some (UID d)) rsList), st)),
      syncStatusOnly = (\<lambda>d rsList st. (None, st)),
      checkPausedConditions = (\<lambda>d st. ((None, d), st)),
      sync = (\<lambda>d rsList st. (None, st)),
      getRollbackTo = (\<lambda>d. False),
      rollback = (\<lambda>d rsList st. (None, st)),
      isScalingEvent = (\<lambda>d rsList st. (Inr False, st)),
      rolloutRecreate = (\<lambda>d rsList podMap st. (None, st)),
      rolloutRolling = (\<lambda>d rsList st. (None, st))\<rparr>"

text \<open>A state with nothing queued and the attempt counter of \<^verbatim>\<open>default/web\<close> at \<open>n\<close>.\<close>

definition fixture_state :: "nat \<Rightarrow> State" where
  "fixture_state n =
     \<lparr>queue = \<lparr>queued = [], delayed = [], attempts = [''default/web'' \<mapsto> n]\<rparr>, calls = []\<rparr>"

section \<open>Basic facts\<close>

lemmas fixture_defs = fixture_ref_def fixture_deployment_def fixture_selector_def
  fixture_replicaSet_def fixture_pod_def fixture_notFound_def fixture_conflict_def
  fixture_terminating_def fixture_controller_def fixture_state_def

lemma queue_record_call [simp]: "queue (record_call c st) = queue st"
  by (simp add: record_call_def)

lemma calls_record_call [simp]: "calls (record_call c st) = calls st @ [c]"
  by (simp add: record_call_def)

section \<open>The replica set update handler and the resource version\<close>

text \<open>
  Claim C8. On a replica set update whose old and new resource versions are equal the
  handler does nothing: the state is the one it started from, so no cache was read
  (no owner resolution, no orphan matching) and nothing was added to the queue.
\<close>

theorem updateReplicaSet_same_resourceVersion:
  "ResourceVersion curRS = ResourceVersion oldRS \<Longrightarrow> updateReplicaSet dc oldRS curRS st = st"
  by (simp add: updateReplicaSet_def)

theorem updateReplicaSet_same_resourceVersion_witness:
  "ResourceVersion (fixture_replicaSet ''4'' []) =
     ResourceVersion (fixture_replicaSet ''4'' [fixture_ref ''Deployment'' ''web'' ''uid-web'']) \<and>
   updateReplicaSet
     (fixture_controller [fixture_deployment (Some fixture_selector) ''Recreate'' 3 3] [] [] Inr)
     (fixture_replicaSet ''4'' [fixture_ref ''Deployment'' ''web'' ''uid-web''])
     (fixture_replicaSet ''4'' []) (fixture_state 0) = fixture_state 0"
proof -
  have h: "ResourceVersion (fixture_replicaSet ''4'' []) =
     ResourceVersion (fixture_replicaSet ''4'' [fixture_ref ''Deployment'' ''web'' ''uid-web''])"
    by (simp add: fixture_replicaSet_def)
  show ?thesis
    by (rule conjI [OF h updateReplicaSet_same_resourceVersion [OF h]])
qed

section \<open>The retry policy\<close>

text \<open>
  Claim C2. For a sync error that is not tagged namespace-terminating: while the
  attempt counter of the key is below 15 the handler requeues the key rate-limited
  (the delay is 5ms doubled per earlier attempt, and the attempt is counted); at 15
  or more it gives the error to the process-wide error handler and forgets the key,
  and the key is then neither queued nor scheduled by the handler, with its counter
  back at zero.
\<close>

theorem handleErr_retry_policy:
  assumes "\<not> HasStatusCause e NamespaceTerminatingCause"
  shows "(NumRequeues (queue st) key < 15 \<longrightarrow>
            handleErr dc (Some e) key st = st\<lparr>queue := AddRateLimited (queue st) key\<rparr> \<and>
            queued (queue (handleErr dc (Some e) key st)) = queued (queue st) \<and>
            delayed (queue (handleErr dc (Some e) key st)) =
              delayed (queue st) @ [(key, 5 * 2 ^ NumRequeues (queue st) key)] \<and>
            NumRequeues (queue (handleErr dc (Some e) key st)) key =
              NumRequeues (queue st) key + 1) \<and>
         (15 \<le> NumRequeues (queue st) key \<longrightarrow>
            handleErr dc (Some e) key st =
              st\<lparr>queue := Forget (queue st) key, calls := calls st @ [HandleError e]\<rparr> \<and>
            queued (queue (handleErr dc (Some e) key st)) = queued (queue st) \<and>
            delayed (queue (handleErr dc (Some e) key st)) = delayed (queue st) \<and>
            NumRequeues (queue (handleErr dc (Some e) key st)) key = 0)"
  using assms
  by (simp add: handleErr_def maxRetries_def AddRateLimited_def Forget_def NumRequeues_def
      record_call_def)

theorem handleErr_retry_policy_witness:
  "\<not> HasStatusCause fixture_conflict NamespaceTerminatingCause \<and>
   NumRequeues (queue (fixture_state 14)) ''default/web'' < 15 \<and>
   delayed (queue (handleErr (fixture_controller [] [] [] Inr) (Some fixture_conflict)
      ''default/web'' (fixture_state 14))) = [(''default/web'', 81920)] \<and>
   NumRequeues (queue (handleErr (fixture_controller [] [] [] Inr) (Some fixture_conflict)
      ''default/web'' (fixture_state 14))) ''default/web'' = 15 \<and>
   15 \<le> NumRequeues (queue (fixture_state 15)) ''default/web'' \<and>
   calls (handleErr (fixture_controller [] [] [] Inr) (Some fixture_conflict)
      ''default/web'' (fixture_state 15)) = [HandleError fixture_conflict] \<and>
   delayed (queue (handleErr (fixture_controller [] [] [] Inr) (Some fixture_conflict)
      ''default/web'' (fixture_state 15))) = [] \<and>
   NumRequeues (queue (handleErr (fixture_controller [] [] [] Inr) (Some fixture_conflict)
      ''default/web'' (fixture_state 15))) ''default/web'' = 0"
proof -
  have h: "\<not> HasStatusCause fixture_conflict NamespaceTerminatingCause"
    by (simp add: fixture_conflict_def NamespaceTerminatingCause_def)
  have n14: "NumRequeues (queue (fixture_state 14)) ''default/web'' = 14"
    and n15: "NumRequeues (queue (fixture_state 15)) ''default/web'' = 15"
    by (simp_all add: fixture_state_def NumRequeues_def)
  have d: "delayed (queue (fixture_state n)) = []" "calls (fixture_state n) = []" for n
    by (simp_all add: fixture_state_def)
  note a = handleErr_retry_policy [OF h, of "fixture_state 14" "''default/web''"
      "fixture_controller [] [] [] Inr"]
  note b = handleErr_retry_policy [OF h, of "fixture_state 15" "''default/web''"
      "fixture_controller [] [] [] Inr"]
  from a n14 d have
    "delayed (queue (handleErr (fixture_controller [] [] [] Inr) (Some fixture_conflict)
      ''default/web'' (fixture_state 14))) = [(''default/web'', 81920)]"
    "NumRequeues (queue (handleErr (fixture_controller [] [] [] Inr) (Some fixture_conflict)
      ''default/web'' (fixture_state 14))) ''default/web'' = 15"
    by (simp_all add: AddRateLimited_def NumRequeues_def fixture_state_def)
  moreover from b n15 d have
    "calls (handleErr (fixture_controller [] [] [] Inr) (Some fixture_conflict)
      ''default/web'' (fixture_state 15)) = [HandleError fixture_conflict]"
    "delayed (queue (handleErr (fixture_controller [] [] [] Inr) (Some fixture_conflict)
      ''default/web'' (fixture_state 15))) = []"
    "NumRequeues (queue (handleErr (fixture_controller [] [] [] Inr) (Some fixture_conflict)
      ''default/web'' (fixture_state 15))) ''default/web'' = 0"
    by (simp_all add: Forget_def NumRequeues_def fixture_state_def)
  ultimately show ?thesis using h n14 n15 by simp
qed

text \<open>
  Claim C5. When the cache does not find the deployment that a key names, the sync
  returns no error. After a sync that returned no error, or an error tagged
  namespace-terminating, the handler only forgets the key: the attempt counter of
  the key is zero, and nothing is queued or scheduled.
\<close>

theorem notFound_succeeds_and_success_forgets:
  "(SplitMetaNamespaceKey dc key = Inr (namespace, name) \<and>
    dLister_Get dc namespace name = Inl e \<and> IsNotFound e \<longrightarrow>
      fst (syncDeployment dc key st) = None) \<and>
   (err = None \<or> (\<exists>e'. err = Some e' \<and> HasStatusCause e' NamespaceTerminatingCause) \<longrightarrow>
      handleErr dc err key st = st\<lparr>queue := Forget (queue st) key\<rparr> \<and>
      NumRequeues (queue (handleErr dc err key st)) key = 0 \<and>
      queued (queue (handleErr dc err key st)) = queued (queue st) \<and>
      delayed (queue (handleErr dc err key st)) = delayed (queue st))"
  by (auto simp: syncDeployment_def Deployments_Get_def handleErr_def Forget_def NumRequeues_def)

theorem notFound_succeeds_and_success_forgets_witness:
  "SplitMetaNamespaceKey (fixture_controller [] [] [] Inr) ''default/web'' =
     Inr (''default'', ''web'') \<and>
   dLister_Get (fixture_controller [] [] [] Inr) ''default'' ''web'' = Inl fixture_notFound \<and>
   IsNotFound fixture_notFound \<and>
   fst (syncDeployment (fixture_controller [] [] [] Inr) ''default/web'' (fixture_state 7)) = None \<and>
   HasStatusCause fixture_terminating NamespaceTerminatingCause \<and>
   NumRequeues (queue (fixture_state 7)) ''default/web'' = 7 \<and>
   NumRequeues (queue (handleErr (fixture_controller [] [] [] Inr) None ''default/web''
      (fixture_state 7))) ''default/web'' = 0 \<and>
   NumRequeues (queue (handleErr (fixture_controller [] [] [] Inr) (Some fixture_terminating)
      ''default/web'' (fixture_state 7))) ''default/web'' = 0"
proof -
  have s: "SplitMetaNamespaceKey (fixture_controller [] [] [] Inr) ''default/web'' =
     Inr (''default'', ''web'')"
    by (simp add: fixture_controller_def)
  have g: "dLister_Get (fixture_controller [] [] [] Inr) ''default'' ''web'' = Inl fixture_notFound"
    by (simp add: fixture_controller_def)
  have n: "IsNotFound fixture_notFound"
    by (simp add: fixture_notFound_def)
  have t: "HasStatusCause fixture_terminating NamespaceTerminatingCause"
    by (simp add: fixture_terminating_def NamespaceTerminatingCause_def)
  have c: "NumRequeues (queue (fixture_state 7)) ''default/web'' = 7"
    by (simp add: fixture_state_def NumRequeues_def)
  from notFound_succeeds_and_success_forgets
         [of "fixture_controller [] [] [] Inr" "''default/web''" "''default''" "''web''"
             fixture_notFound "fixture_state 7" None] s g n
  have 1: "fst (syncDeployment (fixture_controller [] [] [] Inr) ''default/web''
             (fixture_state 7)) = None"
    and 2: "NumRequeues (queue (handleErr (fixture_controller [] [] [] Inr) None ''default/web''
      (fixture_state 7))) ''default/web'' = 0"
    by blast+
  from notFound_succeeds_and_success_forgets
         [of "fixture_controller [] [] [] Inr" "''default/web''" "''default''" "''web''"
             fixture_notFound "fixture_state 7" "Some fixture_terminating"] t
  have 3: "NumRequeues (queue (handleErr (fixture_controller [] [] [] Inr)
      (Some fixture_terminating) ''default/web'' (fixture_state 7))) ''default/web'' = 0"
    by blast
  from s g n t c 1 2 3 show ?thesis by simp
qed

section \<open>The sync of a deployment that selects all pods\<close>

text \<open>
  Claim C1. When the deployment found for the key has the empty selector, the calls of
  the sync are the cache read of the deployment, one warning event, and, exactly when
  the observed generation is behind the generation, one status write that carries
  the generation as observed generation. The sync returns no error. Nothing else
  happens: the queue is as before, and no replica set or pod is listed or claimed.
\<close>

theorem syncDeployment_selecting_all:
  assumes "SplitMetaNamespaceKey dc key = Inr (namespace, name)"
    and "dLister_Get dc namespace name = Inr d"
    and "Selector (Spec d) = Some everything"
  shows "syncDeployment dc key st =
     (None, st\<lparr>calls := calls st @
        [DeploymentsGet namespace name,
         Eventf d ''Warning'' ''SelectingAll''
           ''This deployment is selecting all pods. A non-empty selector is required.''] @
        (if ObservedGeneration (Status d) <s Generation d
         then [UpdateStatus (d\<lparr>Status := (Status d)\<lparr>ObservedGeneration := Generation d\<rparr>\<rparr>)]
         else [])\<rparr>)"
  using assms
  by (simp add: syncDeployment_def Deployments_Get_def syncDeployment_selectingAll_def
      Client_UpdateStatus_def record_call_def)

theorem syncDeployment_selecting_all_witness:
  "SplitMetaNamespaceKey
     (fixture_controller [fixture_deployment (Some everything) ''RollingUpdate'' 3 2] [] [] Inr)
     ''default/web'' = Inr (''default'', ''web'') \<and>
   dLister_Get
     (fixture_controller [fixture_deployment (Some everything) ''RollingUpdate'' 3 2] [] [] Inr)
     ''default'' ''web'' = Inr (fixture_deployment (Some everything) ''RollingUpdate'' 3 2) \<and>
   Selector (Spec (fixture_deployment (Some everything) ''RollingUpdate'' 3 2)) = Some everything \<and>
   syncDeployment
     (fixture_controller [fixture_deployment (Some everything) ''RollingUpdate'' 3 2] [] [] Inr)
     ''default/web'' (fixture_state 0) =
     (None, (fixture_state 0)\<lparr>calls :=
        [DeploymentsGet ''default'' ''web'',
         Eventf (fixture_deployment (Some everything) ''RollingUpdate'' 3 2) ''Warning''
           ''SelectingAll''
           ''This deployment is selecting all pods. A non-empty selector is required.'',
         UpdateStatus (fixture_deployment (Some everything) ''RollingUpdate'' 3 3)]\<rparr>)"
proof -
  let ?d = "fixture_deployment (Some everything) ''RollingUpdate'' 3 2"
  let ?dc = "fixture_controller [?d] [] [] Inr"
  have s: "SplitMetaNamespaceKey ?dc ''default/web'' = Inr (''default'', ''web'')"
    by (simp add: fixture_controller_def)
  have g: "dLister_Get ?dc ''default'' ''web'' = Inr ?d"
    by (simp add: fixture_controller_def fixture_deployment_def)
  have e: "Selector (Spec ?d) = Some everything"
    by (simp add: fixture_deployment_def)
  have stale: "ObservedGeneration (Status ?d) <s Generation ?d"
    by (simp add: fixture_deployment_def)
  have upd: "?d\<lparr>Status := (Status ?d)\<lparr>ObservedGeneration := Generation ?d\<rparr>\<rparr> =
             fixture_deployment (Some everything) ''RollingUpdate'' 3 3"
    by (simp add: fixture_deployment_def)
  have c: "calls (fixture_state 0) = []"
    by (simp add: fixture_state_def)
  from syncDeployment_selecting_all [OF s g e, of "fixture_state 0"] stale upd c
  have "syncDeployment ?dc ''default/web'' (fixture_state 0) =
     (None, (fixture_state 0)\<lparr>calls :=
        [DeploymentsGet ''default'' ''web'',
         Eventf ?d ''Warning'' ''SelectingAll''
           ''This deployment is selecting all pods. A non-empty selector is required.'',
         UpdateStatus (fixture_deployment (Some everything) ''RollingUpdate'' 3 3)]\<rparr>)"
    by simp
  with s g e show ?thesis by simp
qed

section \<open>Errors of the sync\<close>

text \<open>
  Claim C4 says that no store error is discarded inside the sync. The status write of
  the branch for the empty selector is a store write whose error is dropped: with a
  client that rejects the write with a conflict, which is neither not-found nor
  namespace-terminating, the sync still returns no error, and the worker then forgets
  the key instead of retrying it.
\<close>

theorem syncDeployment_drops_UpdateStatus_error:
  "client_UpdateStatus
     (fixture_controller [fixture_deployment (Some everything) ''RollingUpdate'' 3 2] [] []
        (\<lambda>d. Inl fixture_conflict))
     (fixture_deployment (Some everything) ''RollingUpdate'' 3 3) = Inl fixture_conflict \<and>
   \<not> IsNotFound fixture_conflict \<and>
   \<not> HasStatusCause fixture_conflict NamespaceTerminatingCause \<and>
   syncDeployment
     (fixture_controller [fixture_deployment (Some everything) ''RollingUpdate'' 3 2] [] []
        (\<lambda>d. Inl fixture_conflict))
     ''default/web'' (fixture_state 0) =
     (None, (fixture_state 0)\<lparr>calls :=
        [DeploymentsGet ''default'' ''web'',
         Eventf (fixture_deployment (Some everything) ''RollingUpdate'' 3 2) ''Warning''
           ''SelectingAll''
           ''This deployment is selecting all pods. A non-empty selector is required.'',
         UpdateStatus (fixture_deployment (Some everything) ''RollingUpdate'' 3 3)]\<rparr>) \<and>
   delayed (queue (processKey
     (fixture_controller [fixture_deployment (Some everything) ''RollingUpdate'' 3 2] [] []
        (\<lambda>d. Inl fixture_conflict))
     ''default/web'' (fixture_state 0))) = []"
  by (simp add: fixture_defs syncDeployment_def Deployments_Get_def
      syncDeployment_selectingAll_def Client_UpdateStatus_def record_call_def everything_def
      NamespaceTerminatingCause_def processKey_def handleErr_def Forget_def)

section \<open>The map from replica sets to pods\<close>

lemma distinct_initPodMap:
  "distinct (map fst podMap) \<Longrightarrow> distinct (map fst (initPodMap podMap rsList))"
  by (induction rsList arbitrary: podMap) (simp_all add: distinct_update)

lemma map_of_initPodMap:
  "map_of (initPodMap podMap rsList) uid =
     (if uid \<in> UID ` set rsList then Some [] else map_of podMap uid)"
  by (induction rsList arbitrary: podMap) (auto simp: update_conv')

lemma distinct_groupPods:
  "distinct (map fst podMap) \<Longrightarrow> distinct (map fst (groupPods podMap pods))"
  by (induction pods arbitrary: podMap) (simp_all add: distinct_update split: option.splits)

lemma map_of_groupPods:
  "map_of (groupPods podMap pods) uid =
     (case map_of podMap uid of
        None \<Rightarrow> None
      | Some podList \<Rightarrow> Some (podList @ filter (controlledBy uid) pods))"
  by (induction pods arbitrary: podMap)
     (auto simp: update_conv' controlledBy_def split: option.splits)

lemma getPodMapForDeployment_Inr:
  assumes "fst (getPodMapForDeployment dc d rsList st) = Inr podMap"
  shows "\<exists>pods. podMap = groupPods (initPodMap [] rsList) pods"
  using assms
  by (auto simp: getPodMapForDeployment_def Pods_List_def split: sum.splits)

text \<open>
  What the map holds: its keys are distinct, and under the unique-id of each replica
  set of the list it has the listed pods whose controller reference carries that
  unique-id, in the order of the listing.
\<close>

lemma getPodMapForDeployment_lookup:
  assumes "fst (getPodMapForDeployment dc d rsList st) = Inr podMap"
  shows "distinct (map fst podMap) \<and>
         (\<exists>pods. \<forall>uid. map_of podMap uid =
            (if uid \<in> UID ` set rsList then Some (filter (controlledBy uid) pods) else None))"
proof -
  from getPodMapForDeployment_Inr [OF assms] obtain pods
    where pm: "podMap = groupPods (initPodMap [] rsList) pods" by blast
  have "distinct (map fst podMap)"
    unfolding pm by (intro distinct_groupPods distinct_initPodMap) simp
  moreover have "\<forall>uid. map_of podMap uid =
           (if uid \<in> UID ` set rsList then Some (filter (controlledBy uid) pods) else None)"
    unfolding pm by (simp add: map_of_groupPods map_of_initPodMap)
  ultimately show ?thesis by blast
qed

lemma getPodMapForDeployment_queue [simp]:
  "queue (snd (getPodMapForDeployment dc d rsList st)) = queue st"
  by (simp add: getPodMapForDeployment_def Pods_List_def split: sum.splits)

lemma getPodMapForDeployment_result_state:
  "fst (getPodMapForDeployment dc d rsList st) = fst (getPodMapForDeployment dc d rsList st')"
  by (simp add: getPodMapForDeployment_def Pods_List_def split: sum.splits)

text \<open>
  Claim C3 asks for a check of the kind of the owner-reference before a pod is placed
  in the list of a replica set. The grouping compares unique-ids only: a pod whose
  controller reference has the unique-id of a replica set of the list but the kind
  \<^verbatim>\<open>StatefulSet\<close> is placed in the list of that replica set.
\<close>

theorem getPodMapForDeployment_kind_counterexample:
  "fst (getPodMapForDeployment
     (fixture_controller [fixture_deployment (Some fixture_selector) ''Recreate'' 3 3]
        [fixture_replicaSet ''4'' [fixture_ref ''Deployment'' ''web'' ''uid-web'']]
        [fixture_pod [fixture_ref ''StatefulSet'' ''web-1'' ''uid-rs'']] Inr)
     (fixture_deployment (Some fixture_selector) ''Recreate'' 3 3)
     [fixture_replicaSet ''4'' [fixture_ref ''Deployment'' ''web'' ''uid-web'']]
     (fixture_state 0)) =
     Inr [(UID (fixture_replicaSet ''4'' [fixture_ref ''Deployment'' ''web'' ''uid-web'']),
           [fixture_pod [fixture_ref ''StatefulSet'' ''web-1'' ''uid-rs'']])] \<and>
   GetControllerOf (fixture_pod [fixture_ref ''StatefulSet'' ''web-1'' ''uid-rs'']) =
     Some (fixture_ref ''StatefulSet'' ''web-1'' ''uid-rs'') \<and>
   Kind (fixture_ref ''StatefulSet'' ''web-1'' ''uid-rs'') \<noteq> ReplicaSet_Kind"
  by (simp add: fixture_defs getPodMapForDeployment_def Pods_List_def GetControllerOf_def
      ReplicaSet_Kind_def)

text \<open>
  Claim C3, amended. A pod is in the list that the map holds for a unique-id only if
  that unique-id is the one of a replica set of the list, the pod has a controller
  owner-reference, and the unique-id of that reference is the same. The kind of the
  reference is not looked at.
\<close>

theorem getPodMapForDeployment_groups_by_uid:
  assumes "fst (getPodMapForDeployment dc d rsList st) = Inr podMap"
    and "(uid, podList) \<in> set podMap" and "u \<in> set podList"
  shows "(\<exists>g \<in> set rsList. UID g = uid) \<and>
         (\<exists>ref. GetControllerOf u = Some ref \<and> RefUID ref = uid)"
proof -
  from getPodMapForDeployment_lookup [OF assms(1)] obtain pods where
    d: "distinct (map fst podMap)" and
    m: "\<And>uid. map_of podMap uid =
           (if uid \<in> UID ` set rsList then Some (filter (controlledBy uid) pods) else None)"
    by blast
  from d assms(2) have "map_of podMap uid = Some podList" by simp
  with m [of uid] have "uid \<in> UID ` set rsList" and "podList = filter (controlledBy uid) pods"
    by (auto split: if_splits)
  with assms(3) show ?thesis by (auto simp: controlledBy_def)
qed

theorem getPodMapForDeployment_groups_by_uid_witness:
  "fst (getPodMapForDeployment
     (fixture_controller [fixture_deployment (Some fixture_selector) ''Recreate'' 3 3]
        [fixture_replicaSet ''4'' [fixture_ref ''Deployment'' ''web'' ''uid-web'']]
        [fixture_pod [fixture_ref ''ReplicaSet'' ''web-1'' ''uid-rs''], fixture_pod []] Inr)
     (fixture_deployment (Some fixture_selector) ''Recreate'' 3 3)
     [fixture_replicaSet ''4'' [fixture_ref ''Deployment'' ''web'' ''uid-web'']]
     (fixture_state 0)) =
     Inr [(''uid-rs'', [fixture_pod [fixture_ref ''ReplicaSet'' ''web-1'' ''uid-rs'']])] \<and>
   (\<exists>g \<in> set [fixture_replicaSet ''4'' [fixture_ref ''Deployment'' ''web'' ''uid-web'']].
      UID g = ''uid-rs'') \<and>
   (\<exists>ref. GetControllerOf (fixture_pod [fixture_ref ''ReplicaSet'' ''web-1'' ''uid-rs'']) =
      Some ref \<and> RefUID ref = ''uid-rs'')"
proof -
  let ?dc = "fixture_controller [fixture_deployment (Some fixture_selector) ''Recreate'' 3 3]
        [fixture_replicaSet ''4'' [fixture_ref ''Deployment'' ''web'' ''uid-web'']]
        [fixture_pod [fixture_ref ''ReplicaSet'' ''web-1'' ''uid-rs''], fixture_pod []] Inr"
  let ?pod = "fixture_pod [fixture_ref ''ReplicaSet'' ''web-1'' ''uid-rs'']"
  have h: "fst (getPodMapForDeployment ?dc
     (fixture_deployment (Some fixture_selector) ''Recreate'' 3 3)
     [fixture_replicaSet ''4'' [fixture_ref ''Deployment'' ''web'' ''uid-web'']]
     (fixture_state 0)) = Inr [(''uid-rs'', [?pod])]"
    by (simp add: fixture_defs getPodMapForDeployment_def Pods_List_def GetControllerOf_def)
  have i: "(''uid-rs'', [?pod]) \<in> set [(''uid-rs'', [?pod])]" and j: "?pod \<in> set [?pod]"
    by simp_all
  from getPodMapForDeployment_groups_by_uid [OF h i j] h show ?thesis by blast
qed

text \<open>
  Claim C10. The keys of the map are exactly the unique-ids of the replica sets of the
  list, each once: a replica set without pods has a key (with the empty list), and
  there is no other key.
\<close>

theorem getPodMapForDeployment_keys:
  assumes "fst (getPodMapForDeployment dc d rsList st) = Inr podMap"
  shows "fst ` set podMap = UID ` set rsList \<and> distinct (map fst podMap) \<and>
         (\<forall>g \<in> set rsList. \<exists>podList. map_of podMap (UID g) = Some podList)"
proof -
  from getPodMapForDeployment_lookup [OF assms] obtain pods where
    d: "distinct (map fst podMap)" and
    m: "\<And>uid. map_of podMap uid =
           (if uid \<in> UID ` set rsList then Some (filter (controlledBy uid) pods) else None)"
    by blast
  have "dom (map_of podMap) = UID ` set rsList"
    by (auto simp: m dom_def)
  then have "fst ` set podMap = UID ` set rsList"
    by (simp add: dom_map_of_conv_image_fst)
  moreover have "\<forall>g \<in> set rsList. \<exists>podList. map_of podMap (UID g) = Some podList"
    by (simp add: m)
  ultimately show ?thesis using d by blast
qed

theorem getPodMapForDeployment_keys_witness:
  "fst (getPodMapForDeployment
     (fixture_controller [fixture_deployment (Some fixture_selector) ''Recreate'' 3 3]
        [fixture_replicaSet ''4'' [fixture_ref ''Deployment'' ''web'' ''uid-web'']]
        [fixture_pod []] Inr)
     (fixture_deployment (Some fixture_selector) ''Recreate'' 3 3)
     [fixture_replicaSet ''4'' [fixture_ref ''Deployment'' ''web'' ''uid-web'']]
     (fixture_state 0)) = Inr [(''uid-rs'', [])] \<and>
   fst ` set [(''uid-rs'', [] :: Pod list)] =
     UID ` set [fixture_replicaSet ''4'' [fixture_ref ''Deployment'' ''web'' ''uid-web'']] \<and>
   distinct (map fst [(''uid-rs'', [] :: Pod list)]) \<and>
   (\<exists>podList. map_of [(''uid-rs'', [] :: Pod list)]
      (UID (fixture_replicaSet ''4'' [fixture_ref ''Deployment'' ''web'' ''uid-web''])) =
        Some podList)"
proof -
  have h: "fst (getPodMapForDeployment
     (fixture_controller [fixture_deployment (Some fixture_selector) ''Recreate'' 3 3]
        [fixture_replicaSet ''4'' [fixture_ref ''Deployment'' ''web'' ''uid-web'']]
        [fixture_pod []] Inr)
     (fixture_deployment (Some fixture_selector) ''Recreate'' 3 3)
     [fixture_replicaSet ''4'' [fixture_ref ''Deployment'' ''web'' ''uid-web'']]
     (fixture_state 0)) = Inr [(''uid-rs'', [])]"
    by (simp add: fixture_defs getPodMapForDeployment_def Pods_List_def GetControllerOf_def)
  note k = getPodMapForDeployment_keys [OF h]
  from k have a: "fst ` set [(''uid-rs'', [] :: Pod list)] =
      UID ` set [fixture_replicaSet ''4'' [fixture_ref ''Deployment'' ''web'' ''uid-web'']]"
    by (rule conjunct1)
  from k have b: "distinct (map fst [(''uid-rs'', [] :: Pod list)])"
    by (rule conjunct1 [OF conjunct2])
  from k have "\<forall>g \<in> set [fixture_replicaSet ''4'' [fixture_ref ''Deployment'' ''web'' ''uid-web'']].
      \<exists>podList. map_of [(''uid-rs'', [] :: Pod list)] (UID g) = Some podList"
    by (rule conjunct2 [OF conjunct2])
  then have c: "\<exists>podList. map_of [(''uid-rs'', [] :: Pod list)]
      (UID (fixture_replicaSet ''4'' [fixture_ref ''Deployment'' ''web'' ''uid-web''])) =
        Some podList"
    by (rule bspec) simp
  show ?thesis
    by (intro conjI h a b c)
qed

section \<open>Resolving owner-references\<close>

lemma resolveControllerRef_result:
  "fst (resolveControllerRef dc namespace ref st) = Some d \<longleftrightarrow>
     Kind ref = controllerKind_Kind \<and> dLister_Get dc namespace (RefName ref) = Inr d \<and>
     UID d = RefUID ref"
  by (auto simp: resolveControllerRef_def Deployments_Get_def split: sum.splits)

lemma resolveControllerRef_queue [simp]:
  "queue (snd (resolveControllerRef dc namespace ref st)) = queue st"
  by (simp add: resolveControllerRef_def Deployments_Get_def split: sum.splits)

lemma resolveControllerRef_eq:
  "resolveControllerRef dc namespace ref st = (r, st1) \<Longrightarrow>
     fst (resolveControllerRef dc namespace ref st) = r \<and> queue st1 = queue st"
  using resolveControllerRef_queue [of dc namespace ref st] by simp

lemma resolveControllerRef_result_state:
  "fst (resolveControllerRef dc namespace ref st) = fst (resolveControllerRef dc namespace ref st')"
  by (simp add: resolveControllerRef_def Deployments_Get_def split: sum.splits)

lemma getDeploymentsForReplicaSet_queue [simp]:
  "queue (snd (getDeploymentsForReplicaSet dc rs st)) = queue st"
  by (simp add: getDeploymentsForReplicaSet_def Let_def split: sum.splits)

lemma resolveControllerRef_None:
  assumes "fst (resolveControllerRef dc namespace ref st) = None"
  shows "\<exists>st1. resolveControllerRef dc namespace ref st' = (None, st1) \<and> queue st1 = queue st'"
proof -
  obtain r st1 where e: "resolveControllerRef dc namespace ref st' = (r, st1)"
    by (cases "resolveControllerRef dc namespace ref st'")
  from resolveControllerRef_eq [OF e] resolveControllerRef_result_state [of dc namespace ref st' st]
    assms
  have "r = None" and "queue st1 = queue st'" by simp_all
  with e show ?thesis by simp
qed

text \<open>
  Claim C6. An owner-reference resolves to a deployment exactly when its kind is
  \<^verbatim>\<open>Deployment\<close>, the cache lookup by namespace and name of the reference returns
  that deployment, and the unique-id of the deployment is the one of the reference.
  When it resolves to nothing, the handlers that resolve the controller reference of
  a replica set (added, deleted, or updated with that same reference or from no
  reference) leave the queue as it was.
\<close>

theorem resolveControllerRef_verified:
  "(fst (resolveControllerRef dc namespace ref st) = Some d \<longleftrightarrow>
      Kind ref = controllerKind_Kind \<and> dLister_Get dc namespace (RefName ref) = Inr d \<and>
      UID d = RefUID ref) \<and>
   (fst (resolveControllerRef dc namespace ref st) = None \<longrightarrow>
      queue (snd (resolveControllerRef dc namespace ref st)) = queue st \<and>
      (\<forall>rs. GetControllerOf rs = Some ref \<and> Namespace rs = namespace \<longrightarrow>
         queue (deleteReplicaSet dc (ReplicaSetObj rs) st) = queue st \<and>
         queue (deleteReplicaSet dc (Tombstone (ReplicaSetObj rs)) st) = queue st \<and>
         queue (addReplicaSet dc rs st) = queue st \<and>
         (\<forall>oldRS. GetControllerOf oldRS = Some ref \<or> GetControllerOf oldRS = None \<longrightarrow>
            queue (updateReplicaSet dc oldRS rs st) = queue st)))"
proof (intro conjI impI allI)
  show "fst (resolveControllerRef dc namespace ref st) = Some d \<longleftrightarrow>
      Kind ref = controllerKind_Kind \<and> dLister_Get dc namespace (RefName ref) = Inr d \<and>
      UID d = RefUID ref"
    by (rule resolveControllerRef_result)
next
  show "queue (snd (resolveControllerRef dc namespace ref st)) = queue st" by simp
next
  fix rs :: ReplicaSet
  assume n: "fst (resolveControllerRef dc namespace ref st) = None"
    and rs: "GetControllerOf rs = Some ref \<and> Namespace rs = namespace"
  from resolveControllerRef_None [OF n, of st] obtain st1 where
    r: "resolveControllerRef dc namespace ref st = (None, st1)" and q: "queue st1 = queue st"
    by blast
  from rs r q show del: "queue (deleteReplicaSet dc (ReplicaSetObj rs) st) = queue st"
    by (simp add: deleteReplicaSet_def)
  from rs r q show "queue (deleteReplicaSet dc (Tombstone (ReplicaSetObj rs)) st) = queue st"
    by (simp add: deleteReplicaSet_def)
  from rs r q del show "queue (addReplicaSet dc rs st) = queue st"
    by (simp add: addReplicaSet_def)
  fix oldRS :: ReplicaSet
  assume "GetControllerOf oldRS = Some ref \<or> GetControllerOf oldRS = None"
  with rs r q show "queue (updateReplicaSet dc oldRS rs st) = queue st"
    by (auto simp: updateReplicaSet_def Let_def)
qed

theorem resolveControllerRef_verified_witness:
  "fst (resolveControllerRef
     (fixture_controller [fixture_deployment (Some fixture_selector) ''Recreate'' 3 3] [] [] Inr)
     ''default'' (fixture_ref ''Deployment'' ''web'' ''uid-web'') (fixture_state 0)) =
     Some (fixture_deployment (Some fixture_selector) ''Recreate'' 3 3) \<and>
   fst (resolveControllerRef
     (fixture_controller [fixture_deployment (Some fixture_selector) ''Recreate'' 3 3] [] [] Inr)
     ''default'' (fixture_ref ''Deployment'' ''web'' ''uid-old'') (fixture_state 0)) = None \<and>
   GetControllerOf (fixture_replicaSet ''4'' [fixture_ref ''Deployment'' ''web'' ''uid-old'']) =
     Some (fixture_ref ''Deployment'' ''web'' ''uid-old'') \<and>
   queue (deleteReplicaSet
     (fixture_controller [fixture_deployment (Some fixture_selector) ''Recreate'' 3 3] [] [] Inr)
     (ReplicaSetObj (fixture_replicaSet ''4'' [fixture_ref ''Deployment'' ''web'' ''uid-old'']))
     (fixture_state 0)) = queue (fixture_state 0) \<and>
   queue (addReplicaSet
     (fixture_controller [fixture_deployment (Some fixture_selector) ''Recreate'' 3 3] [] [] Inr)
     (fixture_replicaSet ''4'' [fixture_ref ''Deployment'' ''web'' ''uid-old''])
     (fixture_state 0)) = queue (fixture_state 0) \<and>
   queue (updateReplicaSet
     (fixture_controller [fixture_deployment (Some fixture_selector) ''Recreate'' 3 3] [] [] Inr)
     (fixture_replicaSet ''3'' [])
     (fixture_replicaSet ''4'' [fixture_ref ''Deployment'' ''web'' ''uid-old''])
     (fixture_state 0)) = queue (fixture_state 0)"
proof -
  let ?d = "fixture_deployment (Some fixture_selector) ''Recreate'' 3 3"
  let ?dc = "fixture_controller [?d] [] [] Inr"
  let ?rs = "fixture_replicaSet ''4'' [fixture_ref ''Deployment'' ''web'' ''uid-old'']"
  have k: "Kind (fixture_ref ''Deployment'' ''web'' ''uid-web'') = controllerKind_Kind \<and>
      dLister_Get ?dc ''default'' (RefName (fixture_ref ''Deployment'' ''web'' ''uid-web'')) = Inr ?d \<and>
      UID ?d = RefUID (fixture_ref ''Deployment'' ''web'' ''uid-web'')"
    by (simp add: fixture_defs controllerKind_Kind_def)
  have u: "\<not> (Kind (fixture_ref ''Deployment'' ''web'' ''uid-old'') = controllerKind_Kind \<and>
      dLister_Get ?dc ''default'' (RefName (fixture_ref ''Deployment'' ''web'' ''uid-old'')) = Inr d \<and>
      UID d = RefUID (fixture_ref ''Deployment'' ''web'' ''uid-old''))" for d
    by (auto simp: fixture_defs controllerKind_Kind_def)
  have c: "GetControllerOf ?rs = Some (fixture_ref ''Deployment'' ''web'' ''uid-old'') \<and>
           Namespace ?rs = ''default''"
    and o: "GetControllerOf (fixture_replicaSet ''3'' []) = None"
    by (simp_all add: fixture_defs GetControllerOf_def)
  from resolveControllerRef_verified
         [of ?dc "''default''" "fixture_ref ''Deployment'' ''web'' ''uid-web''" "fixture_state 0" ?d] k
  have 1: "fst (resolveControllerRef ?dc ''default'' (fixture_ref ''Deployment'' ''web'' ''uid-web'')
             (fixture_state 0)) = Some ?d"
    by blast
  have 2: "fst (resolveControllerRef ?dc ''default'' (fixture_ref ''Deployment'' ''web'' ''uid-old'')
             (fixture_state 0)) = None"
  proof (cases "fst (resolveControllerRef ?dc ''default''
                  (fixture_ref ''Deployment'' ''web'' ''uid-old'') (fixture_state 0))")
    case None
    then show ?thesis .
  next
    case (Some d)
    with resolveControllerRef_verified
           [of ?dc "''default''" "fixture_ref ''Deployment'' ''web'' ''uid-old''" "fixture_state 0" d]
         u [of d]
    show ?thesis by blast
  qed
  from resolveControllerRef_verified
         [of ?dc "''default''" "fixture_ref ''Deployment'' ''web'' ''uid-old''" "fixture_state 0" ?d]
       2 c o
  have 3: "queue (deleteReplicaSet ?dc (ReplicaSetObj ?rs) (fixture_state 0)) = queue (fixture_state 0)"
    and 4: "queue (addReplicaSet ?dc ?rs (fixture_state 0)) = queue (fixture_state 0)"
    and 5: "queue (updateReplicaSet ?dc (fixture_replicaSet ''3'' []) ?rs (fixture_state 0)) =
            queue (fixture_state 0)"
    by blast+
  from 1 2 3 4 5 c show ?thesis by blast
qed

section \<open>Pod deletions\<close>

lemma asPod_Inr: "asPod obj = Inr pod \<Longrightarrow> obj = PodObj pod \<or> obj = Tombstone (PodObj pod)"
  by (erule asPod.elims) simp_all

lemma getDeploymentForPod_Some:
  assumes "getDeploymentForPod dc pod st = (Some d, st1)"
  shows "\<exists>podRef rs rsRef.
           GetControllerOf pod = Some podRef \<and> Kind podRef = ReplicaSet_Kind \<and>
           rsLister_Get dc (Namespace pod) (RefName podRef) = Inr rs \<and> UID rs = RefUID podRef \<and>
           GetControllerOf rs = Some rsRef \<and> Kind rsRef = controllerKind_Kind \<and>
           dLister_Get dc (Namespace rs) (RefName rsRef) = Inr d \<and> UID d = RefUID rsRef"
    and "queue st1 = queue st"
  using assms
  by (auto simp: getDeploymentForPod_def ReplicaSets_Get_def resolveControllerRef_result
           split: option.splits if_splits sum.splits dest!: resolveControllerRef_eq)

lemma getDeploymentForPod_None:
  "getDeploymentForPod dc pod st = (None, st1) \<Longrightarrow> queue st1 = queue st"
  by (auto simp: getDeploymentForPod_def ReplicaSets_Get_def
           split: option.splits if_splits sum.splits dest!: resolveControllerRef_eq)

text \<open>
  Claim C7. If the deletion of a pod changes the queue at all, then: the pod (given
  directly or in a tombstone) has a controller reference of kind \<^verbatim>\<open>ReplicaSet\<close>
  that the replica set cache resolves by name to a replica set with the unique-id of
  the reference; that replica set has a controller reference of kind
  \<^verbatim>\<open>Deployment\<close> that the deployment cache resolves by name to a deployment with
  the unique-id of the reference; the strategy of the deployment is \<^verbatim>\<open>Recreate\<close>;
  its replica sets were listed and its pods grouped without error; the lists of the
  map hold zero pods in total; and the change of the queue is the addition of the key
  of that deployment. In every other case the queue is as before.
\<close>

theorem deletePod_enqueues_only_when:
  assumes "queue (deletePod dc obj st) \<noteq> queue st"
  shows "\<exists>pod podRef rs rsRef d rsList podMap key.
           (obj = PodObj pod \<or> obj = Tombstone (PodObj pod)) \<and>
           GetControllerOf pod = Some podRef \<and> Kind podRef = ReplicaSet_Kind \<and>
           rsLister_Get dc (Namespace pod) (RefName podRef) = Inr rs \<and> UID rs = RefUID podRef \<and>
           GetControllerOf rs = Some rsRef \<and> Kind rsRef = controllerKind_Kind \<and>
           dLister_Get dc (Namespace rs) (RefName rsRef) = Inr d \<and> UID d = RefUID rsRef \<and>
           Type (Strategy (Spec d)) = RecreateDeploymentStrategyType \<and>
           util_ListReplicaSets dc d = Inr rsList \<and>
           fst (getPodMapForDeployment dc d rsList st) = Inr podMap \<and>
           numPods podMap = 0 \<and>
           KeyFunc dc d = Inr key \<and>
           queue (deletePod dc obj st) = Add (queue st) key"
proof -
  from assms obtain pod where pod: "asPod obj = Inr pod"
    by (cases "asPod obj") (auto simp: deletePod_def)
  obtain r st1 where g: "getDeploymentForPod dc pod st = (r, st1)"
    by (cases "getDeploymentForPod dc pod st")
  from assms pod g obtain d where r: "r = Some d"
    by (cases r) (auto simp: deletePod_def dest: getDeploymentForPod_None)
  note walk = getDeploymentForPod_Some [OF g [unfolded r]]
  from assms pod g r walk(2)
  have recreate: "Type (Strategy (Spec d)) = RecreateDeploymentStrategyType"
    by (auto simp: deletePod_def split: if_splits)
  from assms pod g r walk(2) recreate obtain rsList where
    rsList: "util_ListReplicaSets dc d = Inr rsList"
    by (cases "util_ListReplicaSets dc d") (auto simp: deletePod_def Let_def)
  let ?st2 = "record_call (ListReplicaSetsCall d) st1"
  obtain pm st3 where p: "getPodMapForDeployment dc d rsList ?st2 = (pm, st3)"
    by (cases "getPodMapForDeployment dc d rsList ?st2")
  have q3: "queue st3 = queue st"
    using getPodMapForDeployment_queue [of dc d rsList ?st2] p walk(2) by simp
  from assms pod g r recreate rsList p q3 obtain podMap where
    pm: "pm = Inr podMap" and zero: "numPods podMap = 0"
    by (cases pm) (auto simp: deletePod_def Let_def split: if_splits)
  have pm': "fst (getPodMapForDeployment dc d rsList st) = Inr podMap"
    using getPodMapForDeployment_result_state [of dc d rsList st ?st2] p pm by simp
  have del: "deletePod dc obj st = enqueue dc d st3"
    using pod g r recreate rsList p pm zero by (simp add: deletePod_def Let_def)
  from assms del q3 obtain key where key: "KeyFunc dc d = Inr key"
    by (cases "KeyFunc dc d") (auto simp: enqueue_def)
  have "queue (deletePod dc obj st) = Add (queue st) key"
    using del key q3 by (simp add: enqueue_def)
  with walk(1) asPod_Inr [OF pod] recreate rsList pm' zero key
  show ?thesis by blast
qed

theorem deletePod_enqueues_only_when_witness:
  "queue (deletePod
     (fixture_controller [fixture_deployment (Some fixture_selector) ''Recreate'' 3 3]
        [fixture_replicaSet ''4'' [fixture_ref ''Deployment'' ''web'' ''uid-web'']] [] Inr)
     (PodObj (fixture_pod [fixture_ref ''ReplicaSet'' ''web-1'' ''uid-rs'']))
     (fixture_state 0)) \<noteq> queue (fixture_state 0) \<and>
   (\<exists>d key. Type (Strategy (Spec d)) = RecreateDeploymentStrategyType \<and>
      KeyFunc
        (fixture_controller [fixture_deployment (Some fixture_selector) ''Recreate'' 3 3]
           [fixture_replicaSet ''4'' [fixture_ref ''Deployment'' ''web'' ''uid-web'']] [] Inr)
        d = Inr key \<and>
      queue (deletePod
        (fixture_controller [fixture_deployment (Some fixture_selector) ''Recreate'' 3 3]
           [fixture_replicaSet ''4'' [fixture_ref ''Deployment'' ''web'' ''uid-web'']] [] Inr)
        (PodObj (fixture_pod [fixture_ref ''ReplicaSet'' ''web-1'' ''uid-rs'']))
        (fixture_state 0)) = Add (queue (fixture_state 0)) key)"
proof -
  have h: "queue (deletePod
     (fixture_controller [fixture_deployment (Some fixture_selector) ''Recreate'' 3 3]
        [fixture_replicaSet ''4'' [fixture_ref ''Deployment'' ''web'' ''uid-web'']] [] Inr)
     (PodObj (fixture_pod [fixture_ref ''ReplicaSet'' ''web-1'' ''uid-rs'']))
     (fixture_state 0)) \<noteq> queue (fixture_state 0)"
    by (simp add: fixture_defs deletePod_def getDeploymentForPod_def GetControllerOf_def
        ReplicaSet_Kind_def ReplicaSets_Get_def resolveControllerRef_def controllerKind_Kind_def
        Deployments_Get_def RecreateDeploymentStrategyType_def getPodMapForDeployment_def
        Pods_List_def enqueue_def Add_def record_call_def)
  from deletePod_enqueues_only_when [OF h] h show ?thesis by blast
qed

section \<open>Replica set updates that change the owner\<close>

lemma Add_keeps: "key \<in> set (queued q) \<Longrightarrow> key \<in> set (queued (Add q key'))"
  by (simp add: Add_def)

lemma enqueue_keeps:
  "key \<in> set (queued (queue st)) \<Longrightarrow> key \<in> set (queued (queue (enqueue dc d st)))"
  by (simp add: enqueue_def Add_def split: sum.splits)

lemma enqueue_each_keeps:
  "key \<in> set (queued (queue st)) \<Longrightarrow> key \<in> set (queued (queue (enqueue_each dc ds st)))"
  by (induction ds arbitrary: st) (simp_all add: enqueue_keeps)

lemma enqueue_adds:
  "KeyFunc dc d = Inr key \<Longrightarrow> key \<in> set (queued (queue (enqueue dc d st)))"
  by (simp add: enqueue_def Add_def)

text \<open>
  Claim C9 leaves out the resource version. With equal resource versions the handler
  returns at once, also when the controller reference differs between the two
  versions and the old one resolves: nothing is enqueued.
\<close>

theorem updateReplicaSet_old_owner_counterexample:
  "GetControllerOf (fixture_replicaSet ''4'' [fixture_ref ''Deployment'' ''web'' ''uid-web'']) =
     Some (fixture_ref ''Deployment'' ''web'' ''uid-web'') \<and>
   GetControllerOf (fixture_replicaSet ''4'' []) \<noteq>
     GetControllerOf (fixture_replicaSet ''4'' [fixture_ref ''Deployment'' ''web'' ''uid-web'']) \<and>
   fst (resolveControllerRef
     (fixture_controller [fixture_deployment (Some fixture_selector) ''Recreate'' 3 3] [] [] Inr)
     (Namespace (fixture_replicaSet ''4'' [fixture_ref ''Deployment'' ''web'' ''uid-web'']))
     (fixture_ref ''Deployment'' ''web'' ''uid-web'') (fixture_state 0)) =
     Some (fixture_deployment (Some fixture_selector) ''Recreate'' 3 3) \<and>
   KeyFunc
     (fixture_controller [fixture_deployment (Some fixture_selector) ''Recreate'' 3 3] [] [] Inr)
     (fixture_deployment (Some fixture_selector) ''Recreate'' 3 3) = Inr ''default/web'' \<and>
   updateReplicaSet
     (fixture_controller [fixture_deployment (Some fixture_selector) ''Recreate'' 3 3] [] [] Inr)
     (fixture_replicaSet ''4'' [fixture_ref ''Deployment'' ''web'' ''uid-web''])
     (fixture_replicaSet ''4'' []) (fixture_state 0) = fixture_state 0 \<and>
   ''default/web'' \<notin> set (queued (queue (fixture_state 0)))"
  by (simp add: fixture_defs GetControllerOf_def resolveControllerRef_def controllerKind_Kind_def
      Deployments_Get_def updateReplicaSet_def)

text \<open>
  Claim C9, amended. On a replica set update where the resource versions differ, the
  controller reference differs between the old and the new version, and the old
  version has a controller reference that resolves (kind \<^verbatim>\<open>Deployment\<close>, found by
  name in the cache, same unique-id), the key of the old owner is in the queue when
  the handler returns.
\<close>

theorem updateReplicaSet_enqueues_old_owner:
  assumes rv: "ResourceVersion curRS \<noteq> ResourceVersion oldRS"
    and old: "GetControllerOf oldRS = Some oldRef"
    and changed: "GetControllerOf curRS \<noteq> GetControllerOf oldRS"
    and kind: "Kind oldRef = controllerKind_Kind"
    and found: "dLister_Get dc (Namespace oldRS) (RefName oldRef) = Inr d"
    and uid: "UID d = RefUID oldRef"
    and key: "KeyFunc dc d = Inr key"
  shows "key \<in> set (queued (queue (updateReplicaSet dc oldRS curRS st)))"
proof -
  obtain r st' where e: "resolveControllerRef dc (Namespace oldRS) oldRef st = (r, st')"
    by (cases "resolveControllerRef dc (Namespace oldRS) oldRef st")
  from resolveControllerRef_eq [OF e] resolveControllerRef_result [of dc "Namespace oldRS" oldRef st d]
    kind found uid
  have r: "r = Some d" by simp
  let ?st1 = "enqueue dc d st'"
  have k1: "key \<in> set (queued (queue ?st1))"
    by (rule enqueue_adds [OF key])
  show ?thesis
  proof (cases "GetControllerOf curRS")
    case None
    obtain ds st2 where o: "getDeploymentsForReplicaSet dc curRS ?st1 = (ds, st2)"
      by (cases "getDeploymentsForReplicaSet dc curRS ?st1")
    from getDeploymentsForReplicaSet_queue [of dc curRS ?st1] o
    have "queue st2 = queue ?st1" by simp
    with k1 have k2: "key \<in> set (queued (queue st2))" by simp
    from rv old changed None e r o k2 show ?thesis
      by (simp add: updateReplicaSet_def Let_def enqueue_each_keeps)
  next
    case (Some curRef)
    obtain r2 st2 where c: "resolveControllerRef dc (Namespace curRS) curRef ?st1 = (r2, st2)"
      by (cases "resolveControllerRef dc (Namespace curRS) curRef ?st1")
    from resolveControllerRef_eq [OF c] k1 have k2: "key \<in> set (queued (queue st2))" by simp
    from rv old changed Some e r c k2 show ?thesis
      by (cases r2) (simp_all add: updateReplicaSet_def Let_def enqueue_keeps)
  qed
qed

theorem updateReplicaSet_enqueues_old_owner_witness:
  "ResourceVersion (fixture_replicaSet ''5'' []) \<noteq>
     ResourceVersion (fixture_replicaSet ''4'' [fixture_ref ''Deployment'' ''web'' ''uid-web'']) \<and>
   GetControllerOf (fixture_replicaSet ''4'' [fixture_ref ''Deployment'' ''web'' ''uid-web'']) =
     Some (fixture_ref ''Deployment'' ''web'' ''uid-web'') \<and>
   GetControllerOf (fixture_replicaSet ''5'' []) \<noteq>
     GetControllerOf (fixture_replicaSet ''4'' [fixture_ref ''Deployment'' ''web'' ''uid-web'']) \<and>
   ''default/web'' \<notin> set (queued (queue (fixture_state 0))) \<and>
   ''default/web'' \<in> set (queued (queue (updateReplicaSet
     (fixture_controller [fixture_deployment (Some fixture_selector) ''Recreate'' 3 3] [] [] Inr)
     (fixture_replicaSet ''4'' [fixture_ref ''Deployment'' ''web'' ''uid-web''])
     (fixture_replicaSet ''5'' []) (fixture_state 0))))"
proof -
  let ?d = "fixture_deployment (Some fixture_selector) ''Recreate'' 3 3"
  let ?dc = "fixture_controller [?d] [] [] Inr"
  let ?ref = "fixture_ref ''Deployment'' ''web'' ''uid-web''"
  let ?old = "fixture_replicaSet ''4'' [?ref]"
  let ?cur = "fixture_replicaSet ''5'' []"
  have rv: "ResourceVersion ?cur \<noteq> ResourceVersion ?old"
    by (simp add: fixture_replicaSet_def)
  have old: "GetControllerOf ?old = Some ?ref"
    by (simp add: fixture_defs GetControllerOf_def)
  have changed: "GetControllerOf ?cur \<noteq> GetControllerOf ?old"
    by (simp add: fixture_defs GetControllerOf_def)
  have kind: "Kind ?ref = controllerKind_Kind"
    by (simp add: fixture_ref_def controllerKind_Kind_def)
  have found: "dLister_Get ?dc (Namespace ?old) (RefName ?ref) = Inr ?d"
    by (simp add: fixture_defs)
  have uid: "UID ?d = RefUID ?ref"
    by (simp add: fixture_defs)
  have key: "KeyFunc ?dc ?d = Inr ''default/web''"
    by (simp add: fixture_defs)
  have empty: "''default/web'' \<notin> set (queued (queue (fixture_state 0)))"
    by (simp add: fixture_state_def)
  from updateReplicaSet_enqueues_old_owner [OF rv old changed kind found uid key, of "fixture_state 0"]
    rv old changed empty
  show ?thesis by blast
qed

end
